theory Spec2Isabelle
  imports Complex_Main
begin

section \<open>The report screen of civic-ai: data\<close>

text \<open>
  The development embeds \<^verbatim>\<open>src/components/ReportIssue.tsx\<close>: the React state of the
  component, its event handlers, and the parts of the handlers that run after an awaited
  \<^verbatim>\<open>fetch\<close> has settled. A handler is a function from the component state to the new
  state and the list of effects it caused (toasts, console lines, network requests), in
  the order the source causes them.

  JavaScript numbers are modelled by the rational they denote; the literal \<^verbatim>\<open>0.7\<close> is
  \<open>7/10\<close>. Number formatting (\<^verbatim>\<open>toString\<close>, \<^verbatim>\<open>toFixed(1)\<close>) is kept symbolic.
\<close>

type_synonym number = rat

datatype IssueType = drainage | garbage_waste | pothole

datatype Severity = low | medium | high

record AIAnalysis =
  is_match :: bool
  probability :: number
  severity :: "Severity option"

datatype File = File (file_bits: string) (file_name: string) (file_type: string)

record Coords =
  lat :: number
  lng :: number

record State =
  image_file :: "File option"
  previewUrl :: "string option"
  location :: "Coords option"
  address :: string
  description :: string
  issueType :: IssueType
  isAnalyzing :: bool
  showCamera :: bool
  aiAnalysis :: "AIAnalysis option"
  isSubmitting :: bool

text \<open>The values of the \<^verbatim>\<open>useState\<close> calls of the component.\<close>

definition initialState :: State where
  "initialState =
     \<lparr> image_file = None, previewUrl = None, location = None, address = [],
       description = [], issueType = drainage, isAnalyzing = False, showCamera = False,
       aiAnalysis = None, isSubmitting = False \<rparr>"

text \<open>The string a member of the union type \<^verbatim>\<open>IssueType\<close> or of the severity union is.\<close>

fun issueTypeValue :: "IssueType \<Rightarrow> string" where
  "issueTypeValue drainage = ''drainage''"
| "issueTypeValue garbage_waste = ''garbage_waste''"
| "issueTypeValue pothole = ''pothole''"

fun severityValue :: "Severity \<Rightarrow> string" where
  "severityValue low = ''low''"
| "severityValue medium = ''medium''"
| "severityValue high = ''high''"

text \<open>A JavaScript string is truthy when it is not empty.\<close>

definition truthy :: "string \<Rightarrow> bool" where
  "truthy str = (str \<noteq> [])"

text \<open>\<^verbatim>\<open>str.replace(a, b)\<close> with one-character strings: the first occurrence only.\<close>

fun replace_first :: "char \<Rightarrow> char \<Rightarrow> string \<Rightarrow> string" where
  "replace_first a b [] = []"
| "replace_first a b (c # cs) = (if c = a then b # cs else c # replace_first a b cs)"

subsection \<open>Form data, messages, effects\<close>

text \<open>
  A \<^verbatim>\<open>FormData\<close> is the list of its entries in the order of the \<^verbatim>\<open>append\<close> calls.
  \<open>NumberEntry n\<close> is the entry whose value is \<^verbatim>\<open>n.toString()\<close>.
\<close>

datatype FormValue = FileEntry File | StringEntry string | NumberEntry number

type_synonym FormData = "(string \<times> FormValue) list"

definition append_fd :: "FormData \<Rightarrow> string \<Rightarrow> FormValue \<Rightarrow> FormData" where
  "append_fd formData name v = formData @ [(name, v)]"

text \<open>A message is a template string: literal pieces and \<^verbatim>\<open>x.toFixed(1)\<close> pieces.\<close>

datatype Piece = Lit string | ToFixed1 number

type_synonym Message = "Piece list"

datatype Request =
    PostPredict FormData
  | GetDataUrl string
  | GetReverse Coords
  | PostReports FormData

datatype Effect =
    ToastSuccess Message
  | ToastError Message
  | ConsoleError string string
  | ConsoleLog string FormValue
  | Fetch Request

fun requests :: "Effect list \<Rightarrow> Request list" where
  "requests [] = []"
| "requests (Fetch r # es) = r # requests es"
| "requests (_ # es) = requests es"

fun errorToasts :: "Effect list \<Rightarrow> Message list" where
  "errorToasts [] = []"
| "errorToasts (ToastError m # es) = m # errorToasts es"
| "errorToasts (_ # es) = errorToasts es"

subsection \<open>What a settled fetch delivers\<close>

text \<open>
  \<open>PredictThrew m\<close>: \<^verbatim>\<open>fetch\<close> or \<^verbatim>\<open>response.json()\<close> rejected with an error whose
  message is \<open>m\<close>; \<open>PredictNotOk\<close>: a response whose \<^verbatim>\<open>ok\<close> is false; \<open>PredictJson\<close>: the
  parsed body of an ok response.
\<close>

datatype PredictResponse = PredictThrew string | PredictNotOk | PredictJson AIAnalysis

text \<open>
  The geocoder's response is parsed whatever its status. \<open>GeocodeData d\<close> is the parsed
  body, \<open>d\<close> its \<^verbatim>\<open>display_name\<close> (\<open>None\<close> when the body is null or has no such field).
\<close>

datatype GeocodeResponse = GeocodeThrew string | GeocodeData "string option"

text \<open>\<open>ReportsNotOk t\<close>: a response whose \<^verbatim>\<open>ok\<close> is false and whose body text is \<open>t\<close>.\<close>

datatype ReportsResponse = ReportsThrew string | ReportsNotOk string | ReportsOk

section \<open>The handlers\<close>

subsection \<open>analyzeImage\<close>

definition analyzeImage :: "File \<Rightarrow> IssueType \<Rightarrow> State \<Rightarrow> State \<times> Effect list" where
  "analyzeImage imageData category s =
     (let formData = append_fd (append_fd [] ''image'' (FileEntry imageData))
                       ''category'' (StringEntry (issueTypeValue category))
      in (s\<lparr>isAnalyzing := True\<rparr>, [Fetch (PostPredict formData)]))"

text \<open>What the guarded block yields once the fetch has settled: the error thrown, or the result.\<close>

fun analyzeImage_outcome :: "PredictResponse \<Rightarrow> string + AIAnalysis" where
  "analyzeImage_outcome (PredictThrew m) = Inl m"
| "analyzeImage_outcome PredictNotOk = Inl ''Failed to analyze image''"
| "analyzeImage_outcome (PredictJson result) = Inr result"

definition analyzeImage_resume ::
    "IssueType \<Rightarrow> PredictResponse \<Rightarrow> State \<Rightarrow> State \<times> Effect list" where
  "analyzeImage_resume category r s =
     (case analyzeImage_outcome r of
        Inr result \<Rightarrow>
          (s\<lparr>aiAnalysis := Some result, isAnalyzing := False\<rparr>,
           [if is_match result
            then ToastSuccess [Lit ''Confirmed: This is a '', Lit (issueTypeValue category),
                   Lit '' with '', ToFixed1 (probability result * 100), Lit ''% confidence.'']
            else ToastError [Lit ''This does not appear to be a '', Lit (issueTypeValue category),
                   Lit '' ('', ToFixed1 (probability result * 100), Lit ''% confidence).'']])
      | Inl m \<Rightarrow>
          (s\<lparr>isAnalyzing := False\<rparr>,
           [ConsoleError ''Analysis error:'' m,
            ToastError [Lit ''Failed to analyze image: '',
                        Lit (if truthy m then m else ''Unknown error'')]]))"

subsection \<open>handleImageChange, the category select, handleScan, capture\<close>

text \<open>
  \<open>files\<close> is \<^verbatim>\<open>e.target.files\<close> (\<open>None\<close> for null), \<open>url\<close> the result of
  \<^verbatim>\<open>URL.createObjectURL\<close>.
\<close>

definition handleImageChange :: "File list option \<Rightarrow> string \<Rightarrow> State \<Rightarrow> State" where
  "handleImageChange files url s =
     (case files of
        Some (file # _) \<Rightarrow> s\<lparr>image_file := Some file, previewUrl := Some url, aiAnalysis := None\<rparr>
      | _ \<Rightarrow> s)"

text \<open>The \<^verbatim>\<open>onChange\<close> of the issue-type select: \<^verbatim>\<open>setIssueType(e.target.value as IssueType)\<close>.\<close>

definition setIssueType :: "IssueType \<Rightarrow> State \<Rightarrow> State" where
  "setIssueType v s = s\<lparr>issueType := v\<rparr>"

definition handleScan :: "State \<Rightarrow> State \<times> Effect list" where
  "handleScan s =
     (case image_file s of
        Some img \<Rightarrow>
          if truthy (issueTypeValue (issueType s)) then analyzeImage img (issueType s) s
          else (s, [ToastError [Lit ''Please upload or capture an image and select a category'']])
      | None \<Rightarrow>
          (s, [ToastError [Lit ''Please upload or capture an image and select a category'']]))"

text \<open>
  \<open>webcam\<close> is \<^verbatim>\<open>webcamRef.current\<close> (\<open>None\<close> for null) reduced to what
  \<^verbatim>\<open>getScreenshot()\<close> returns (\<open>None\<close> for null).
\<close>

definition capture :: "string option option \<Rightarrow> State \<Rightarrow> State \<times> Effect list" where
  "capture webcam s =
     (case webcam of
        None \<Rightarrow> (s, [])
      | Some None \<Rightarrow> (s, [ToastError [Lit ''Failed to capture image'']])
      | Some (Some imageSrc) \<Rightarrow>
          if truthy imageSrc
          then (s\<lparr>previewUrl := Some imageSrc, showCamera := False\<rparr>, [Fetch (GetDataUrl imageSrc)])
          else (s, [ToastError [Lit ''Failed to capture image'']]))"

text \<open>
  After the screenshot's data URL has been fetched and read as a blob. \<open>None\<close>: one of the
  two awaits rejected, and the rest of \<^verbatim>\<open>capture\<close> does not run.
\<close>

definition capture_resume :: "string option \<Rightarrow> State \<Rightarrow> State" where
  "capture_resume blob s =
     (case blob of
        None \<Rightarrow> s
      | Some bits \<Rightarrow>
          s\<lparr>image_file := Some (File bits ''camera-capture.jpg'' ''image/jpeg''),
            aiAnalysis := None\<rparr>)"

subsection \<open>handleLocationSelect\<close>

definition handleLocationSelect :: "Coords \<Rightarrow> State \<Rightarrow> State \<times> Effect list" where
  "handleLocationSelect coords s = (s\<lparr>location := Some coords\<rparr>, [Fetch (GetReverse coords)])"

definition handleLocationSelect_resume :: "GeocodeResponse \<Rightarrow> State \<Rightarrow> State \<times> Effect list" where
  "handleLocationSelect_resume r s =
     (case r of
        GeocodeData (Some display_name) \<Rightarrow>
          if truthy display_name then (s\<lparr>address := display_name\<rparr>, [])
          else (s\<lparr>address := ''Address not found''\<rparr>, [])
      | GeocodeData None \<Rightarrow> (s\<lparr>address := ''Address not found''\<rparr>, [])
      | GeocodeThrew m \<Rightarrow>
          (s\<lparr>address := []\<rparr>,
           [ConsoleError ''Geocoding error:'' m, ToastError [Lit ''Failed to fetch address'']]))"

subsection \<open>handleSubmit\<close>

definition submitFormData ::
    "File \<Rightarrow> IssueType \<Rightarrow> Coords \<Rightarrow> string \<Rightarrow> string \<Rightarrow> AIAnalysis \<Rightarrow> FormData" where
  "submitFormData img ty loc addr descr a =
     (let fd0 = append_fd [] ''image'' (FileEntry img);
          fd1 = append_fd fd0 ''type'' (StringEntry (issueTypeValue ty));
          fd2 = append_fd fd1 ''latitude'' (NumberEntry (lat loc));
          fd3 = append_fd fd2 ''longitude'' (NumberEntry (lng loc));
          fd4 = append_fd fd3 ''address'' (StringEntry addr);
          fd5 = append_fd fd4 ''description'' (StringEntry descr)
      in if is_match a
         then append_fd (append_fd fd5 ''ai_probability'' (NumberEntry (probability a)))
                ''ai_severity''
                (StringEntry (case severity a of Some sv \<Rightarrow> severityValue sv | None \<Rightarrow> []))
         else append_fd fd5 ''ai_probability'' (StringEntry ''0''))"

definition handleSubmit :: "State \<Rightarrow> State \<times> Effect list" where
  "handleSubmit s =
     (case image_file s of
        None \<Rightarrow> (s, [ToastError [Lit ''Please upload or capture an image'']])
      | Some img \<Rightarrow>
     (case location s of
        None \<Rightarrow> (s, [ToastError [Lit ''Please select a location on the map'']])
      | Some loc \<Rightarrow>
     (case aiAnalysis s of
        None \<Rightarrow> (s, [ToastError [Lit ''Please scan the image to confirm the issue'']])
      | Some a \<Rightarrow>
          (let formData = submitFormData img (issueType s) loc (address s) (description s) a
           in (s\<lparr>isSubmitting := True\<rparr>,
               map (\<lambda>(k, v). ConsoleLog k v) formData @ [Fetch (PostReports formData)])))))"

text \<open>What the guarded block yields once the fetch has settled: the message of the error thrown, if any.\<close>

fun handleSubmit_outcome :: "ReportsResponse \<Rightarrow> string option" where
  "handleSubmit_outcome (ReportsThrew m) = Some m"
| "handleSubmit_outcome (ReportsNotOk errorText) =
     Some (''Failed to submit report: '' @ (if truthy errorText then errorText else ''Unknown error''))"
| "handleSubmit_outcome ReportsOk = None"

definition handleSubmit_resume :: "ReportsResponse \<Rightarrow> State \<Rightarrow> State \<times> Effect list" where
  "handleSubmit_resume r s =
     (case handleSubmit_outcome r of
        None \<Rightarrow> (s\<lparr>isSubmitting := False\<rparr>, [ToastSuccess [Lit ''Report submitted successfully!'']])
      | Some m \<Rightarrow>
          (s\<lparr>isSubmitting := False\<rparr>,
           [ConsoleError ''Submit error:'' m,
            ToastError [Lit ''Failed to submit report: '', Lit m]]))"

section \<open>What is rendered\<close>

text \<open>
  The paragraph of the analysis panel: its colour class and its text. The label of the
  category is \<^verbatim>\<open>issueType.replace('_', ' ')\<close>; an absent severity renders as nothing.
\<close>

datatype TextColor = text_green_600 | text_yellow_600 | text_red_600

definition analysisParagraph :: "IssueType \<Rightarrow> AIAnalysis \<Rightarrow> TextColor \<times> Message" where
  "analysisParagraph ty a =
     (let label = replace_first (CHR ''_'') (CHR '' '') (issueTypeValue ty);
          percent = ToFixed1 (probability a * 100)
      in if is_match a
         then (if probability a \<ge> 7 / 10
               then (text_green_600,
                     [Lit ''Confirmed: This is a '', Lit label, Lit '' with '', percent,
                      Lit ''% confidence. Severity: '',
                      Lit (case severity a of Some sv \<Rightarrow> severityValue sv | None \<Rightarrow> [])])
               else (text_yellow_600,
                     [Lit ''Possible '', Lit label, Lit '', but the image is unclear ('', percent,
                      Lit ''% confidence). Please upload a clearer photo.'']))
         else (text_red_600,
               [Lit ''This does not appear to be a '', Lit label, Lit '' ('', percent,
                Lit ''% confidence).'']))"

text \<open>The preview block, with the scan button, is rendered under \<^verbatim>\<open>previewUrl && !showCamera\<close>.\<close>

definition previewShown :: "State \<Rightarrow> bool" where
  "previewShown s =
     ((case previewUrl s of Some url \<Rightarrow> truthy url | None \<Rightarrow> False) \<and> \<not> showCamera s)"

definition analysisPanel :: "State \<Rightarrow> (TextColor \<times> Message) option" where
  "analysisPanel s =
     (if previewShown s then map_option (analysisParagraph (issueType s)) (aiAnalysis s)
      else None)"

text \<open>
  The \<^verbatim>\<open>disabled\<close> attributes: the camera toggle, the file input and the scan button
  carry \<^verbatim>\<open>isAnalyzing || isSubmitting\<close>, the description and the submit button
  \<^verbatim>\<open>isSubmitting\<close>. The category select, the capture button and the map carry none.
\<close>

definition scanDisabled :: "State \<Rightarrow> bool" where
  "scanDisabled s = (isAnalyzing s \<or> isSubmitting s)"

definition submitDisabled :: "State \<Rightarrow> bool" where
  "submitDisabled s = isSubmitting s"

section \<open>The component with its calls in flight\<close>

text \<open>
  A running component is its state together with the awaited calls that have not settled:
  for each kind the closures waiting, oldest first. \<open>predicts\<close> holds the \<^verbatim>\<open>category\<close>
  argument of each waiting \<^verbatim>\<open>analyzeImage\<close>, \<open>geocodes\<close> the \<^verbatim>\<open>coords\<close> of each waiting
  \<^verbatim>\<open>handleLocationSelect\<close>, \<open>reports\<close> the form data each waiting \<^verbatim>\<open>handleSubmit\<close> sent,
  \<open>captures\<close> the screenshot of each waiting \<^verbatim>\<open>capture\<close>.
\<close>

record System =
  ui :: State
  predicts :: "IssueType list"
  captures :: "string list"
  geocodes :: "Coords list"
  reports :: "FormData list"

definition initialSystem :: System where
  "initialSystem = \<lparr> ui = initialState, predicts = [], captures = [], geocodes = [], reports = [] \<rparr>"

text \<open>
  User events arrive through the rendered controls; a control that is disabled or not
  rendered delivers nothing. A settled call is named by its position among the waiting
  ones of its kind, so calls may settle in any order.
\<close>

datatype Event =
    SelectIssueType IssueType
  | ClickUseCamera
  | ChooseFiles "File list option" string
  | ClickCapture "string option"
  | CaptureSettled nat "string option"
  | ClickScan
  | PredictSettled nat PredictResponse
  | MapClick Coords
  | GeocodeSettled nat GeocodeResponse
  | TypeDescription string
  | ClickSubmit
  | ReportsSettled nat ReportsResponse

definition drop_nth :: "nat \<Rightarrow> 'a list \<Rightarrow> 'a list" where
  "drop_nth i xs = take i xs @ drop (Suc i) xs"

fun postedReports :: "Request list \<Rightarrow> FormData list" where
  "postedReports [] = []"
| "postedReports (PostReports fd # rs) = fd # postedReports rs"
| "postedReports (_ # rs) = postedReports rs"

fun step :: "Event \<Rightarrow> System \<Rightarrow> System \<times> Effect list" where
  "step (SelectIssueType v) sys = (sys\<lparr>ui := setIssueType v (ui sys)\<rparr>, [])"
| "step ClickUseCamera sys =
     (if scanDisabled (ui sys) then (sys, [])
      else (sys\<lparr>ui := (ui sys)\<lparr>showCamera := \<not> showCamera (ui sys)\<rparr>\<rparr>, []))"
| "step (ChooseFiles files url) sys =
     (if scanDisabled (ui sys) then (sys, [])
      else (sys\<lparr>ui := handleImageChange files url (ui sys)\<rparr>, []))"
| "step (ClickCapture shot) sys =
     (if showCamera (ui sys)
      then (case capture (Some shot) (ui sys) of
              (s', effs) \<Rightarrow>
                (sys\<lparr>ui := s',
                     captures := captures sys @ [u. GetDataUrl u \<leftarrow> requests effs]\<rparr>, effs))
      else (sys, []))"
| "step (CaptureSettled i blob) sys =
     (if i < length (captures sys)
      then (sys\<lparr>ui := capture_resume blob (ui sys), captures := drop_nth i (captures sys)\<rparr>, [])
      else (sys, []))"
| "step ClickScan sys =
     (if previewShown (ui sys) \<and> \<not> scanDisabled (ui sys)
      then (case handleScan (ui sys) of
              (s', effs) \<Rightarrow>
                (sys\<lparr>ui := s',
                     predicts := predicts sys @ [issueType (ui sys). PostPredict fd \<leftarrow> requests effs]\<rparr>,
                 effs))
      else (sys, []))"
| "step (PredictSettled i r) sys =
     (if i < length (predicts sys)
      then (case analyzeImage_resume (predicts sys ! i) r (ui sys) of
              (s', effs) \<Rightarrow> (sys\<lparr>ui := s', predicts := drop_nth i (predicts sys)\<rparr>, effs))
      else (sys, []))"
| "step (MapClick coords) sys =
     (case handleLocationSelect coords (ui sys) of
        (s', effs) \<Rightarrow>
          (sys\<lparr>ui := s', geocodes := geocodes sys @ [c. GetReverse c \<leftarrow> requests effs]\<rparr>, effs))"
| "step (GeocodeSettled i r) sys =
     (if i < length (geocodes sys)
      then (case handleLocationSelect_resume r (ui sys) of
              (s', effs) \<Rightarrow> (sys\<lparr>ui := s', geocodes := drop_nth i (geocodes sys)\<rparr>, effs))
      else (sys, []))"
| "step (TypeDescription v) sys =
     (if isSubmitting (ui sys) then (sys, [])
      else (sys\<lparr>ui := (ui sys)\<lparr>description := v\<rparr>\<rparr>, []))"
| "step ClickSubmit sys =
     (if submitDisabled (ui sys) then (sys, [])
      else (case handleSubmit (ui sys) of
              (s', effs) \<Rightarrow>
                (sys\<lparr>ui := s', reports := reports sys @ postedReports (requests effs)\<rparr>, effs)))"
| "step (ReportsSettled i r) sys =
     (if i < length (reports sys)
      then (case handleSubmit_resume r (ui sys) of
              (s', effs) \<Rightarrow> (sys\<lparr>ui := s', reports := drop_nth i (reports sys)\<rparr>, effs))
      else (sys, []))"

fun run :: "Event list \<Rightarrow> System \<Rightarrow> System" where
  "run [] sys = sys"
| "run (e # es) sys = run es (fst (step e sys))"

section \<open>Sample drafts\<close>

text \<open>Concrete verdicts and states at which the theorems below are instantiated.\<close>

definition exampleVerdict :: AIAnalysis where
  "exampleVerdict = \<lparr> is_match = True, probability = 85 / 100, severity = Some high \<rparr>"

definition exampleClassified :: State where
  "exampleClassified =
     initialState\<lparr> image_file := Some (File ''bits'' ''road.jpg'' ''image/jpeg''),
                   previewUrl := Some ''blob:1'',
                   issueType := garbage_waste,
                   aiAnalysis := Some exampleVerdict \<rparr>"

definition exampleCoords :: Coords where
  "exampleCoords = \<lparr> lat = 129 / 10, lng = 776 / 10 \<rparr>"

definition exampleComplete :: State where
  "exampleComplete = exampleClassified\<lparr> location := Some exampleCoords, address := ''MG Road'' \<rparr>"

text \<open>
  The flags \<open>isAnalyzing\<close> and \<open>isSubmitting\<close> count the calls in flight: this is the
  invariant behind the disabled buttons.
\<close>

definition inflight_inv :: "System \<Rightarrow> bool" where
  "inflight_inv sys =
     (length (predicts sys) = (if isAnalyzing (ui sys) then 1 else 0) \<and>
      length (reports sys) = (if isSubmitting (ui sys) then 1 else 0))"

section \<open>Helper facts\<close>

lemma requests_append: "requests (xs @ ys) = requests xs @ requests ys"
  by (induction xs rule: requests.induct) simp_all

lemma requests_logs: "requests (map (\<lambda>(k, v). ConsoleLog k v) fd) = []"
  by (induction fd) auto

lemmas example_defs = exampleComplete_def exampleClassified_def exampleVerdict_def
  exampleCoords_def initialState_def initialSystem_def

lemma setIssueType_aiAnalysis: "aiAnalysis (setIssueType v s) = aiAnalysis s"
  by (simp add: setIssueType_def)

lemma handleImageChange_clears:
  "aiAnalysis (handleImageChange (Some (file # files)) url s) = None"
  by (simp add: handleImageChange_def)

lemma capture_resume_clears: "aiAnalysis (capture_resume (Some bits) s) = None"
  by (simp add: capture_resume_def)

lemma drop_nth_single: "length xs = Suc 0 \<Longrightarrow> drop_nth 0 xs = []"
  by (cases xs) (simp_all add: drop_nth_def)

lemma inflight_inv_step: "inflight_inv sys \<Longrightarrow> inflight_inv (fst (step e sys))"
proof (cases e)
  case ClickScan
  assume "inflight_inv sys"
  then show ?thesis using ClickScan
    by (auto simp: inflight_inv_def handleScan_def analyzeImage_def scanDisabled_def
          split: option.splits if_splits)
next
  case ClickSubmit
  assume "inflight_inv sys"
  then show ?thesis using ClickSubmit
    by (auto simp: inflight_inv_def handleSubmit_def submitDisabled_def requests_append
          requests_logs Let_def split: option.splits if_splits)
next
  case (PredictSettled i r)
  assume "inflight_inv sys"
  then show ?thesis using PredictSettled
    by (auto simp: inflight_inv_def analyzeImage_resume_def drop_nth_single
          split: sum.splits if_splits)
next
  case (ReportsSettled i r)
  assume "inflight_inv sys"
  then show ?thesis using ReportsSettled
    by (auto simp: inflight_inv_def handleSubmit_resume_def drop_nth_single
          split: option.splits if_splits)
qed (auto simp: inflight_inv_def setIssueType_def handleImageChange_def capture_def
       capture_resume_def handleLocationSelect_def handleLocationSelect_resume_def
       split: option.splits if_splits list.splits GeocodeResponse.splits)

lemma inflight_inv_run: "inflight_inv sys \<Longrightarrow> inflight_inv (run es sys)"
  by (induction es arbitrary: sys) (simp_all add: inflight_inv_step)

lemma inflight_inv_initial: "inflight_inv initialSystem"
  by (simp add: inflight_inv_def initialSystem_def initialState_def)

lemma handleSubmit_complete:
  assumes "image_file s = Some img" "location s = Some loc" "aiAnalysis s = Some a"
  shows "fst (handleSubmit s) = s\<lparr>isSubmitting := True\<rparr>"
    and "requests (snd (handleSubmit s)) =
           [PostReports (submitFormData img (issueType s) loc (address s) (description s) a)]"
    and "errorToasts (snd (handleSubmit s)) = []"
proof -
  let ?fd = "submitFormData img (issueType s) loc (address s) (description s) a"
  have eq: "handleSubmit s = (s\<lparr>isSubmitting := True\<rparr>,
              map (\<lambda>(k, v). ConsoleLog k v) ?fd @ [Fetch (PostReports ?fd)])"
    using assms by (simp add: handleSubmit_def Let_def)
  show "fst (handleSubmit s) = s\<lparr>isSubmitting := True\<rparr>" by (simp add: eq)
  show "requests (snd (handleSubmit s)) = [PostReports ?fd]"
    by (simp add: eq requests_append requests_logs)
  have "errorToasts (map (\<lambda>(k, v). ConsoleLog k v) fd @ [Fetch q]) = []" for fd q
    by (induction fd) auto
  then show "errorToasts (snd (handleSubmit s)) = []" by (simp add: eq)
qed

lemma submitFormData_match:
  "is_match a \<Longrightarrow> submitFormData img ty loc addr descr a =
     [(''image'', FileEntry img), (''type'', StringEntry (issueTypeValue ty)),
      (''latitude'', NumberEntry (lat loc)), (''longitude'', NumberEntry (lng loc)),
      (''address'', StringEntry addr), (''description'', StringEntry descr),
      (''ai_probability'', NumberEntry (probability a)),
      (''ai_severity'', StringEntry (case severity a of Some sv \<Rightarrow> severityValue sv | None \<Rightarrow> []))]"
  by (simp add: submitFormData_def append_fd_def)

lemma submitFormData_no_match:
  "\<not> is_match a \<Longrightarrow> submitFormData img ty loc addr descr a =
     [(''image'', FileEntry img), (''type'', StringEntry (issueTypeValue ty)),
      (''latitude'', NumberEntry (lat loc)), (''longitude'', NumberEntry (lng loc)),
      (''address'', StringEntry addr), (''description'', StringEntry descr),
      (''ai_probability'', StringEntry ''0'')]"
  by (simp add: submitFormData_def append_fd_def)

lemma handleLocationSelect_resume_location:
  "location (fst (handleLocationSelect_resume r s)) = location s"
  by (simp add: handleLocationSelect_resume_def split: GeocodeResponse.splits option.splits)

lemma handleLocationSelect_resume_name:
  "truthy name \<Longrightarrow>
   handleLocationSelect_resume (GeocodeData (Some name)) s = (s\<lparr>address := name\<rparr>, [])"
  by (simp add: handleLocationSelect_resume_def)

lemma step_MapClick:
  "fst (step (MapClick c) sys) = sys\<lparr>ui := (ui sys)\<lparr>location := Some c\<rparr>, geocodes := geocodes sys @ [c]\<rparr>"
  by (simp add: handleLocationSelect_def)

lemma step_GeocodeSettled:
  "i < length (geocodes sys) \<Longrightarrow>
   fst (step (GeocodeSettled i r) sys) =
     sys\<lparr>ui := fst (handleLocationSelect_resume r (ui sys)), geocodes := drop_nth i (geocodes sys)\<rparr>"
  by (simp split: prod.splits)

lemma handleSubmit_resume_failure:
  "r \<noteq> ReportsOk \<Longrightarrow>
   fst (handleSubmit_resume r s) = s\<lparr>isSubmitting := False\<rparr> \<and>
   errorToasts (snd (handleSubmit_resume r s)) \<noteq> []"
  by (cases r) (simp_all add: handleSubmit_resume_def)

lemma step_issueType:
  "issueType (ui (fst (step e sys))) =
     (case e of SelectIssueType v \<Rightarrow> v | _ \<Rightarrow> issueType (ui sys))"
  by (cases e)
     (auto simp: setIssueType_def handleImageChange_def capture_def capture_resume_def
        handleScan_def analyzeImage_def analyzeImage_resume_def handleLocationSelect_def
        handleLocationSelect_resume_def handleSubmit_def handleSubmit_resume_def Let_def
        split: option.splits list.splits sum.splits GeocodeResponse.splits prod.splits)

section \<open>C1: a category change and the stored verdict\<close>

text \<open>
  Claim C1: after \<^verbatim>\<open>captureImage\<close> or \<^verbatim>\<open>selectCategory\<close> the stored verdict is cleared.
  The two image paths clear it (\<open>handleImageChange_clears\<close>, \<open>capture_resume_clears\<close>).
  The category select does not: at a state holding a verdict for \<open>garbage_waste\<close>,
  selecting \<open>pothole\<close> leaves the verdict stored (\<open>setIssueType_aiAnalysis\<close> for every
  state), and the panel then presents the old verdict under the new category.
\<close>

theorem select_category_keeps_verdict:
  "aiAnalysis exampleClassified = Some exampleVerdict \<and>
   aiAnalysis (setIssueType pothole exampleClassified) = Some exampleVerdict \<and>
   issueType (setIssueType pothole exampleClassified) = pothole \<and>
   aiAnalysis (ui (fst (step (SelectIssueType pothole) (initialSystem\<lparr>ui := exampleClassified\<rparr>))))
     = Some exampleVerdict \<and>
   analysisPanel (setIssueType pothole exampleClassified)
     = Some (text_green_600,
         [Lit ''Confirmed: This is a '', Lit ''pothole'', Lit '' with '', ToFixed1 85,
          Lit ''% confidence. Severity: '', Lit ''high''])"
  by (simp add: setIssueType_def exampleClassified_def exampleVerdict_def initialState_def
        initialSystem_def analysisPanel_def previewShown_def truthy_def analysisParagraph_def)

section \<open>C2: one classification and one submission in flight\<close>

text \<open>
  Claim C2, as the component has it: in every state reached from the initial one by any
  sequence of events, at most one classification call and at most one submission call
  are in flight; while one is, the button that would start another is disabled, so a
  click delivers nothing: no second call, no toast, no change of state.
\<close>

theorem one_call_in_flight:
  "length (predicts (run es initialSystem)) \<le> 1 \<and>
   length (reports (run es initialSystem)) \<le> 1 \<and>
   (predicts (run es initialSystem) \<noteq> [] \<longrightarrow>
      step ClickScan (run es initialSystem) = (run es initialSystem, [])) \<and>
   (reports (run es initialSystem) \<noteq> [] \<longrightarrow>
      step ClickSubmit (run es initialSystem) = (run es initialSystem, []))"
proof -
  have "inflight_inv (run es initialSystem)"
    by (rule inflight_inv_run [OF inflight_inv_initial])
  then show ?thesis
    by (auto simp: inflight_inv_def scanDisabled_def submitDisabled_def split: if_splits)
qed

text \<open>
  The handlers carry no guard of their own and there is no rejection outcome:
  \<open>handleScan\<close> run while \<open>isAnalyzing\<close> holds issues a second request, \<open>handleSubmit\<close>
  run while \<open>isSubmitting\<close> holds issues a second request, neither reports an error; and a
  click on the disabled button reports nothing either.
\<close>

theorem unguarded_handlers_counterexample:
  "requests (snd (handleScan (exampleClassified\<lparr>isAnalyzing := True\<rparr>)))
     = [PostPredict [(''image'', FileEntry (File ''bits'' ''road.jpg'' ''image/jpeg'')),
                     (''category'', StringEntry ''garbage_waste'')]] \<and>
   errorToasts (snd (handleScan (exampleClassified\<lparr>isAnalyzing := True\<rparr>))) = [] \<and>
   length (requests (snd (handleSubmit (exampleComplete\<lparr>isSubmitting := True\<rparr>)))) = 1 \<and>
   errorToasts (snd (handleSubmit (exampleComplete\<lparr>isSubmitting := True\<rparr>))) = [] \<and>
   snd (step ClickScan (initialSystem\<lparr>ui := exampleClassified\<lparr>isAnalyzing := True\<rparr>\<rparr>)) = [] \<and>
   snd (step ClickSubmit (initialSystem\<lparr>ui := exampleComplete\<lparr>isSubmitting := True\<rparr>\<rparr>)) = []"
  by (simp add: example_defs handleScan_def analyzeImage_def append_fd_def truthy_def
        handleSubmit_def submitFormData_def scanDisabled_def submitDisabled_def)

text \<open>
  A run that has both a classification and a submission in flight: upload, scan, verdict,
  map click, second scan, submit.
\<close>

theorem one_call_in_flight_witness:
  "predicts (run [ChooseFiles (Some [File ''bits'' ''road.jpg'' ''image/jpeg'']) ''blob:1'',
                  ClickScan, PredictSettled 0 (PredictJson exampleVerdict),
                  MapClick exampleCoords, ClickScan, ClickSubmit] initialSystem) \<noteq> [] \<and>
   reports (run [ChooseFiles (Some [File ''bits'' ''road.jpg'' ''image/jpeg'']) ''blob:1'',
                  ClickScan, PredictSettled 0 (PredictJson exampleVerdict),
                  MapClick exampleCoords, ClickScan, ClickSubmit] initialSystem) \<noteq> [] \<and>
   length (predicts (run [ChooseFiles (Some [File ''bits'' ''road.jpg'' ''image/jpeg'']) ''blob:1'',
                  ClickScan, PredictSettled 0 (PredictJson exampleVerdict),
                  MapClick exampleCoords, ClickScan, ClickSubmit] initialSystem)) \<le> 1 \<and>
   length (reports (run [ChooseFiles (Some [File ''bits'' ''road.jpg'' ''image/jpeg'']) ''blob:1'',
                  ClickScan, PredictSettled 0 (PredictJson exampleVerdict),
                  MapClick exampleCoords, ClickScan, ClickSubmit] initialSystem)) \<le> 1 \<and>
   step ClickScan (run [ChooseFiles (Some [File ''bits'' ''road.jpg'' ''image/jpeg'']) ''blob:1'',
                  ClickScan, PredictSettled 0 (PredictJson exampleVerdict),
                  MapClick exampleCoords, ClickScan, ClickSubmit] initialSystem)
     = (run [ChooseFiles (Some [File ''bits'' ''road.jpg'' ''image/jpeg'']) ''blob:1'',
                  ClickScan, PredictSettled 0 (PredictJson exampleVerdict),
                  MapClick exampleCoords, ClickScan, ClickSubmit] initialSystem, []) \<and>
   step ClickSubmit (run [ChooseFiles (Some [File ''bits'' ''road.jpg'' ''image/jpeg'']) ''blob:1'',
                  ClickScan, PredictSettled 0 (PredictJson exampleVerdict),
                  MapClick exampleCoords, ClickScan, ClickSubmit] initialSystem)
     = (run [ChooseFiles (Some [File ''bits'' ''road.jpg'' ''image/jpeg'']) ''blob:1'',
                  ClickScan, PredictSettled 0 (PredictJson exampleVerdict),
                  MapClick exampleCoords, ClickScan, ClickSubmit] initialSystem, [])"
proof -
  let ?es = "[ChooseFiles (Some [File ''bits'' ''road.jpg'' ''image/jpeg'']) ''blob:1'',
                  ClickScan, PredictSettled 0 (PredictJson exampleVerdict),
                  MapClick exampleCoords, ClickScan, ClickSubmit]"
  have p: "predicts (run ?es initialSystem) \<noteq> []"
    by code_simp
  have r: "reports (run ?es initialSystem) \<noteq> []"
    by code_simp
  from one_call_in_flight [of ?es] p r show ?thesis by blast
qed

section \<open>C3: the missing field reported by handleSubmit\<close>

text \<open>
  Claim C3: when the image, the location or the verdict is absent, \<open>handleSubmit\<close> reports
  exactly one missing requirement, the image before the location before the verdict,
  leaves the state unchanged and issues no request.
\<close>

theorem handleSubmit_missing_field:
  assumes "image_file s = None \<or> location s = None \<or> aiAnalysis s = None"
  shows "handleSubmit s =
           (s, [ToastError [Lit (if image_file s = None then ''Please upload or capture an image''
                                 else if location s = None then ''Please select a location on the map''
                                 else ''Please scan the image to confirm the issue'')]]) \<and>
         requests (snd (handleSubmit s)) = []"
  using assms by (auto simp: handleSubmit_def split: option.splits)

text \<open>
  Location and verdict both absent: the location is reported. Only the verdict absent: the
  verdict is reported. Image and location absent: the image is reported.
\<close>

theorem handleSubmit_missing_field_witness:
  "handleSubmit (exampleClassified\<lparr>aiAnalysis := None\<rparr>) =
     (exampleClassified\<lparr>aiAnalysis := None\<rparr>,
      [ToastError [Lit ''Please select a location on the map'']]) \<and>
   handleSubmit (exampleComplete\<lparr>aiAnalysis := None\<rparr>) =
     (exampleComplete\<lparr>aiAnalysis := None\<rparr>,
      [ToastError [Lit ''Please scan the image to confirm the issue'']]) \<and>
   handleSubmit (exampleComplete\<lparr>image_file := None, location := None\<rparr>) =
     (exampleComplete\<lparr>image_file := None, location := None\<rparr>,
      [ToastError [Lit ''Please upload or capture an image'']])"
  using handleSubmit_missing_field [of "exampleClassified\<lparr>aiAnalysis := None\<rparr>"]
    handleSubmit_missing_field [of "exampleComplete\<lparr>aiAnalysis := None\<rparr>"]
    handleSubmit_missing_field [of "exampleComplete\<lparr>image_file := None, location := None\<rparr>"]
  by (simp add: example_defs)

section \<open>C4: the outbound record\<close>

text \<open>
  Claim C4: for a complete draft \<open>handleSubmit\<close> issues one request to the reports
  endpoint; its form data has the fields image, type, latitude, longitude, address,
  description and ai_probability, then ai_severity exactly when the verdict is a match;
  ai_probability is the verdict's probability for a match and the string 0 otherwise.
  No field name occurs twice, so \<open>map_of\<close> reads the form data as \<^verbatim>\<open>FormData.get\<close> does.
\<close>

theorem handleSubmit_outbound_record:
  assumes "image_file s = Some img" "location s = Some loc" "aiAnalysis s = Some a"
  shows "\<exists>fd. requests (snd (handleSubmit s)) = [PostReports fd] \<and>
           isSubmitting (fst (handleSubmit s)) \<and>
           map fst fd = [''image'', ''type'', ''latitude'', ''longitude'', ''address'',
                         ''description'', ''ai_probability'']
                        @ (if is_match a then [''ai_severity''] else []) \<and>
           map_of fd ''image'' = Some (FileEntry img) \<and>
           map_of fd ''type'' = Some (StringEntry (issueTypeValue (issueType s))) \<and>
           map_of fd ''latitude'' = Some (NumberEntry (lat loc)) \<and>
           map_of fd ''longitude'' = Some (NumberEntry (lng loc)) \<and>
           map_of fd ''address'' = Some (StringEntry (address s)) \<and>
           map_of fd ''description'' = Some (StringEntry (description s)) \<and>
           map_of fd ''ai_probability''
             = Some (if is_match a then NumberEntry (probability a) else StringEntry ''0'')"
proof (cases "is_match a")
  case True
  show ?thesis
    using handleSubmit_complete [OF assms] True
    by (simp add: submitFormData_match)
next
  case False
  show ?thesis
    using handleSubmit_complete [OF assms] False
    by (simp add: submitFormData_no_match)
qed

text \<open>
  The sample draft: category \<open>garbage_waste\<close>, a matching verdict of probability 0.85.
\<close>

theorem handleSubmit_outbound_record_witness:
  "\<exists>fd. requests (snd (handleSubmit exampleComplete)) = [PostReports fd] \<and>
         map_of fd ''type'' = Some (StringEntry ''garbage_waste'') \<and>
         map_of fd ''ai_probability'' = Some (NumberEntry (85 / 100))"
proof -
  have "image_file exampleComplete = Some (File ''bits'' ''road.jpg'' ''image/jpeg'')"
    and "location exampleComplete = Some exampleCoords"
    and "aiAnalysis exampleComplete = Some exampleVerdict"
    by (simp_all add: exampleComplete_def exampleClassified_def)
  from handleSubmit_outbound_record [OF this]
  obtain fd where "requests (snd (handleSubmit exampleComplete)) = [PostReports fd]"
    and "map_of fd ''type'' = Some (StringEntry (issueTypeValue (issueType exampleComplete)))"
    and "map_of fd ''ai_probability''
           = Some (if is_match exampleVerdict then NumberEntry (probability exampleVerdict)
                   else StringEntry ''0'')"
    by blast
  then show ?thesis
    by (simp add: exampleComplete_def exampleClassified_def exampleVerdict_def)
qed

section \<open>C5: geocoder responses that settle out of order\<close>

text \<open>
  Claim C5, as the component has it: a geocoder response is applied when it settles,
  whatever the current location is. After map clicks at \<open>A\<close> then \<open>B\<close>, when the call
  for \<open>B\<close> settles first and the call for \<open>A\<close> settles last with a name, the address is
  the name found for \<open>A\<close> while the location is \<open>B\<close>.
\<close>

theorem last_settled_geocode_wins:
  assumes "truthy nameA"
  shows "address (ui (run [MapClick A, MapClick B,
                           GeocodeSettled (Suc (length (geocodes sys))) rB,
                           GeocodeSettled (length (geocodes sys)) (GeocodeData (Some nameA))] sys))
           = nameA \<and>
         location (ui (run [MapClick A, MapClick B,
                           GeocodeSettled (Suc (length (geocodes sys))) rB,
                           GeocodeSettled (length (geocodes sys)) (GeocodeData (Some nameA))] sys))
           = Some B"
proof -
  let ?n = "length (geocodes sys)"
  let ?s1 = "fst (step (MapClick A) sys)"
  let ?s2 = "fst (step (MapClick B) ?s1)"
  let ?s3 = "fst (step (GeocodeSettled (Suc ?n) rB) ?s2)"
  let ?s4 = "fst (step (GeocodeSettled ?n (GeocodeData (Some nameA))) ?s3)"
  have g2: "geocodes ?s2 = geocodes sys @ [A, B]" and l2: "location (ui ?s2) = Some B"
    by (simp_all add: step_MapClick del: step.simps)
  have lt2: "Suc ?n < length (geocodes ?s2)" by (simp add: g2 del: step.simps)
  have g3: "geocodes ?s3 = geocodes sys @ [A]"
    by (simp add: step_GeocodeSettled [OF lt2] g2 drop_nth_def del: step.simps)
  have l3: "location (ui ?s3) = Some B"
    by (simp add: step_GeocodeSettled [OF lt2] handleLocationSelect_resume_location l2
          del: step.simps)
  have lt3: "?n < length (geocodes ?s3)" by (simp add: g3 del: step.simps)
  have "address (ui ?s4) = nameA"
    by (simp add: step_GeocodeSettled [OF lt3] handleLocationSelect_resume_name [OF assms]
          del: step.simps)
  moreover have "location (ui ?s4) = Some B"
    by (simp add: step_GeocodeSettled [OF lt3] handleLocationSelect_resume_location l3
          del: step.simps)
  ultimately show ?thesis by (simp del: step.simps)
qed

text \<open>
  The stale response is not discarded: the final address is the one resolved for the
  superseded coordinates.
\<close>

theorem stale_geocode_counterexample:
  "address (ui (run [MapClick \<lparr>lat = 1, lng = 1\<rparr>, MapClick \<lparr>lat = 2, lng = 2\<rparr>,
                     GeocodeSettled 1 (GeocodeData (Some ''B Street'')),
                     GeocodeSettled 0 (GeocodeData (Some ''A Street''))] initialSystem))
     = ''A Street'' \<and>
   location (ui (run [MapClick \<lparr>lat = 1, lng = 1\<rparr>, MapClick \<lparr>lat = 2, lng = 2\<rparr>,
                     GeocodeSettled 1 (GeocodeData (Some ''B Street'')),
                     GeocodeSettled 0 (GeocodeData (Some ''A Street''))] initialSystem))
     = Some \<lparr>lat = 2, lng = 2\<rparr>"
  by code_simp

text \<open>
  The same order of events from the initial component, the call for \<open>B\<close> failing.
\<close>

theorem last_settled_geocode_wins_witness:
  "truthy ''A Street'' \<and>
   address (ui (run [MapClick \<lparr>lat = 1, lng = 1\<rparr>, MapClick \<lparr>lat = 2, lng = 2\<rparr>,
                     GeocodeSettled (Suc (length (geocodes initialSystem))) (GeocodeThrew ''offline''),
                     GeocodeSettled (length (geocodes initialSystem)) (GeocodeData (Some ''A Street''))]
                 initialSystem))
     = ''A Street''"
proof -
  have h: "truthy ''A Street''" by (simp add: truthy_def)
  from last_settled_geocode_wins [OF h] h show ?thesis by blast
qed

section \<open>C6: a failed submission keeps the draft\<close>

text \<open>
  Claim C6: when the submission call fails (a response that is not ok, or a rejected
  fetch), the component is back in the state it had before \<open>handleSubmit\<close>, with an error
  toast; the submit button is enabled again, and a second \<open>handleSubmit\<close> sends the same
  record. In whatever state \<open>s'\<close> the failure arrives, image, location and verdict are
  left as they are.
\<close>

theorem submit_failure_keeps_draft:
  assumes "image_file s = Some img" and "location s = Some loc" and "aiAnalysis s = Some a"
    and "\<not> isSubmitting s" and "r \<noteq> ReportsOk"
  shows "fst (handleSubmit_resume r (fst (handleSubmit s))) = s \<and>
         errorToasts (snd (handleSubmit_resume r (fst (handleSubmit s)))) \<noteq> [] \<and>
         \<not> submitDisabled (fst (handleSubmit_resume r (fst (handleSubmit s)))) \<and>
         requests (snd (handleSubmit s)) =
           [PostReports (submitFormData img (issueType s) loc (address s) (description s) a)] \<and>
         requests (snd (handleSubmit (fst (handleSubmit_resume r (fst (handleSubmit s)))))) =
           requests (snd (handleSubmit s)) \<and>
         image_file (fst (handleSubmit_resume r s')) = image_file s' \<and>
         location (fst (handleSubmit_resume r s')) = location s' \<and>
         aiAnalysis (fst (handleSubmit_resume r s')) = aiAnalysis s'"
proof -
  have restored: "fst (handleSubmit_resume r (fst (handleSubmit s))) = s"
    using handleSubmit_complete(1) [OF assms(1-3)] handleSubmit_resume_failure [OF assms(5)] assms(4)
    by simp
  have toast: "errorToasts (snd (handleSubmit_resume r (fst (handleSubmit s)))) \<noteq> []"
    using handleSubmit_resume_failure [OF assms(5)] by simp
  have any: "fst (handleSubmit_resume r s') = s'\<lparr>isSubmitting := False\<rparr>"
    using handleSubmit_resume_failure [OF assms(5)] by simp
  show ?thesis
    using restored toast handleSubmit_complete(2) [OF assms(1-3)] assms(4)
    by (simp add: any submitDisabled_def)
qed

text \<open>
  The sample draft, the reports endpoint answering with a server error.
\<close>

theorem submit_failure_keeps_draft_witness:
  "fst (handleSubmit_resume (ReportsNotOk ''Internal Server Error'') (fst (handleSubmit exampleComplete)))
     = exampleComplete \<and>
   requests (snd (handleSubmit (fst (handleSubmit_resume (ReportsNotOk ''Internal Server Error'')
                                       (fst (handleSubmit exampleComplete)))))) =
     requests (snd (handleSubmit exampleComplete)) \<and>
   errorToasts (snd (handleSubmit_resume (ReportsNotOk ''Internal Server Error'')
                       (fst (handleSubmit exampleComplete)))) \<noteq> []"
proof -
  have c: "image_file exampleComplete = Some (File ''bits'' ''road.jpg'' ''image/jpeg'')"
      "location exampleComplete = Some exampleCoords"
      "aiAnalysis exampleComplete = Some exampleVerdict"
      "\<not> isSubmitting exampleComplete"
    by (simp_all add: exampleComplete_def exampleClassified_def initialState_def)
  have r: "ReportsNotOk ''Internal Server Error'' \<noteq> ReportsOk" by simp
  from submit_failure_keeps_draft [OF c r] show ?thesis by blast
qed

section \<open>C7: the advisory policy and the 0.7 threshold\<close>

text \<open>
  Claim C7: the panel shows a no-match verdict in red, a match below 0.7 in yellow
  (unclear image) and a match from 0.7 on in green (confirmed). The threshold plays no
  part in submission: with image and location present, \<open>handleSubmit\<close> sends the record
  for every verdict, and for every matching verdict, on either side of the threshold, the
  record is the same list of fields with the verdict's own probability and severity.
\<close>

theorem verdict_advisory_policy:
  "fst (analysisParagraph ty a) =
     (if \<not> is_match a then text_red_600
      else if probability a < 7 / 10 then text_yellow_600 else text_green_600) \<and>
   (image_file s = Some img \<and> location s = Some loc \<and> aiAnalysis s = Some a \<longrightarrow>
      fst (handleSubmit s) = s\<lparr>isSubmitting := True\<rparr> \<and>
      requests (snd (handleSubmit s)) =
        [PostReports (submitFormData img (issueType s) loc (address s) (description s) a)] \<and>
      errorToasts (snd (handleSubmit s)) = []) \<and>
   (is_match a \<longrightarrow>
      submitFormData img ty loc addr descr a =
        [(''image'', FileEntry img), (''type'', StringEntry (issueTypeValue ty)),
         (''latitude'', NumberEntry (lat loc)), (''longitude'', NumberEntry (lng loc)),
         (''address'', StringEntry addr), (''description'', StringEntry descr),
         (''ai_probability'', NumberEntry (probability a)),
         (''ai_severity'',
          StringEntry (case severity a of Some sv \<Rightarrow> severityValue sv | None \<Rightarrow> []))])"
proof -
  have tag: "fst (analysisParagraph ty a) =
     (if \<not> is_match a then text_red_600
      else if probability a < 7 / 10 then text_yellow_600 else text_green_600)"
    by (simp add: analysisParagraph_def Let_def not_le)
  show ?thesis
    using tag handleSubmit_complete [of s img loc a] submitFormData_match [of a img ty loc addr descr]
    by blast
qed

text \<open>
  A matching verdict of probability 0.5: yellow in the panel, submitted with
  \<open>ai_probability\<close> 0.5 and its severity.
\<close>

theorem verdict_advisory_policy_witness:
  "fst (analysisParagraph garbage_waste \<lparr>is_match = True, probability = 1 / 2, severity = Some low\<rparr>)
     = text_yellow_600 \<and>
   requests (snd (handleSubmit (exampleComplete\<lparr>aiAnalysis :=
       Some \<lparr>is_match = True, probability = 1 / 2, severity = Some low\<rparr>\<rparr>))) =
     [PostReports
       [(''image'', FileEntry (File ''bits'' ''road.jpg'' ''image/jpeg'')),
        (''type'', StringEntry ''garbage_waste''),
        (''latitude'', NumberEntry (129 / 10)), (''longitude'', NumberEntry (776 / 10)),
        (''address'', StringEntry ''MG Road''), (''description'', StringEntry []),
        (''ai_probability'', NumberEntry (1 / 2)), (''ai_severity'', StringEntry ''low'')]]"
proof -
  let ?a = "\<lparr>is_match = True, probability = 1 / 2, severity = Some low\<rparr>"
  let ?s = "exampleComplete\<lparr>aiAnalysis := Some ?a\<rparr>"
  let ?img = "File ''bits'' ''road.jpg'' ''image/jpeg''"
  have c: "image_file ?s = Some ?img \<and> location ?s = Some exampleCoords \<and> aiAnalysis ?s = Some ?a"
    by (simp add: exampleComplete_def exampleClassified_def)
  have d: "issueType ?s = garbage_waste" "address ?s = ''MG Road''" "description ?s = []"
    by (simp_all add: exampleComplete_def exampleClassified_def initialState_def)
  have m: "is_match ?a" by simp
  note t = verdict_advisory_policy [of garbage_waste ?a ?s ?img exampleCoords
      "''MG Road''" "[]"]
  have "fst (analysisParagraph garbage_waste ?a) = text_yellow_600"
    using t by simp
  moreover have "requests (snd (handleSubmit ?s)) =
      [PostReports (submitFormData ?img garbage_waste exampleCoords ''MG Road'' [] ?a)]"
    using t c d by simp
  moreover have "submitFormData ?img garbage_waste exampleCoords ''MG Road'' [] ?a =
       [(''image'', FileEntry ?img),
        (''type'', StringEntry ''garbage_waste''),
        (''latitude'', NumberEntry (129 / 10)), (''longitude'', NumberEntry (776 / 10)),
        (''address'', StringEntry ''MG Road''), (''description'', StringEntry []),
        (''ai_probability'', NumberEntry (1 / 2)), (''ai_severity'', StringEntry ''low'')]"
    using t m by (simp add: exampleCoords_def)
  ultimately show ?thesis by simp
qed

section \<open>C8: the address after a failed reverse geocoding\<close>

text \<open>
  Claim C8, as the component has it: when the geocoder's body has no usable
  \<^verbatim>\<open>display_name\<close> the address becomes the text \<^verbatim>\<open>Address not found\<close>; when the call
  throws, the address becomes the empty string and an error toast is shown. In both
  cases the location keeps the selected coordinates, and a draft with image and verdict
  is submitted with those coordinates and the address just set.
\<close>

theorem geocode_failure_address:
  "location (fst (handleLocationSelect_resume r s)) = location s \<and>
   (r = GeocodeData None \<or> r = GeocodeData (Some []) \<longrightarrow>
      handleLocationSelect_resume r s = (s\<lparr>address := ''Address not found''\<rparr>, [])) \<and>
   (r = GeocodeThrew m \<longrightarrow>
      fst (handleLocationSelect_resume r s) = s\<lparr>address := []\<rparr> \<and>
      errorToasts (snd (handleLocationSelect_resume r s)) = [[Lit ''Failed to fetch address'']]) \<and>
   (image_file s = Some img \<and> location s = Some loc \<and> aiAnalysis s = Some a \<longrightarrow>
      requests (snd (handleSubmit (fst (handleLocationSelect_resume r s)))) =
        [PostReports (submitFormData img (issueType s) loc
           (address (fst (handleLocationSelect_resume r s))) (description s) a)])"
proof -
  have keep: "image_file (fst (handleLocationSelect_resume r s)) = image_file s"
      "aiAnalysis (fst (handleLocationSelect_resume r s)) = aiAnalysis s"
      "issueType (fst (handleLocationSelect_resume r s)) = issueType s"
      "description (fst (handleLocationSelect_resume r s)) = description s"
    by (simp_all add: handleLocationSelect_resume_def split: GeocodeResponse.splits option.splits)
  have sub: "requests (snd (handleSubmit (fst (handleLocationSelect_resume r s)))) =
        [PostReports (submitFormData img (issueType s) loc
           (address (fst (handleLocationSelect_resume r s))) (description s) a)]"
    if "image_file s = Some img" "location s = Some loc" "aiAnalysis s = Some a"
    using handleSubmit_complete(2) [of "fst (handleLocationSelect_resume r s)" img loc a] that
    by (simp add: keep handleLocationSelect_resume_location)
  have nf: "handleLocationSelect_resume r s = (s\<lparr>address := ''Address not found''\<rparr>, [])"
    if "r = GeocodeData None \<or> r = GeocodeData (Some [])"
    using that by (auto simp: handleLocationSelect_resume_def truthy_def)
  have thr: "fst (handleLocationSelect_resume r s) = s\<lparr>address := []\<rparr> \<and>
      errorToasts (snd (handleLocationSelect_resume r s)) = [[Lit ''Failed to fetch address'']]"
    if "r = GeocodeThrew m"
    using that by (simp add: handleLocationSelect_resume_def)
  show ?thesis
    using sub nf thr handleLocationSelect_resume_location [of r s] by blast
qed

text \<open>
  A thrown geocoding call does not store the not-found text: the address is emptied.
\<close>

theorem geocode_throw_counterexample:
  "address (fst (handleLocationSelect_resume (GeocodeThrew ''Failed to fetch'')
                   (exampleComplete\<lparr>location := Some \<lparr>lat = 2, lng = 2\<rparr>\<rparr>))) = [] \<and>
   address (fst (handleLocationSelect_resume (GeocodeThrew ''Failed to fetch'')
                   (exampleComplete\<lparr>location := Some \<lparr>lat = 2, lng = 2\<rparr>\<rparr>)))
     \<noteq> ''Address not found''"
  by (simp add: handleLocationSelect_resume_def)

text \<open>
  The sample draft after a body without name, and after a thrown call.
\<close>

theorem geocode_failure_address_witness:
  "handleLocationSelect_resume (GeocodeData None) exampleComplete
     = (exampleComplete\<lparr>address := ''Address not found''\<rparr>, []) \<and>
   fst (handleLocationSelect_resume (GeocodeThrew ''offline'') exampleComplete)
     = exampleComplete\<lparr>address := []\<rparr> \<and>
   requests (snd (handleSubmit (fst (handleLocationSelect_resume (GeocodeThrew ''offline'') exampleComplete))))
     = [PostReports (submitFormData (File ''bits'' ''road.jpg'' ''image/jpeg'') garbage_waste
          exampleCoords [] [] exampleVerdict)]"
proof -
  have c: "image_file exampleComplete = Some (File ''bits'' ''road.jpg'' ''image/jpeg'') \<and>
      location exampleComplete = Some exampleCoords \<and>
      aiAnalysis exampleComplete = Some exampleVerdict"
    by (simp add: exampleComplete_def exampleClassified_def)
  have d: "issueType exampleComplete = garbage_waste" "description exampleComplete = []"
    by (simp_all add: exampleComplete_def exampleClassified_def initialState_def)
  have "handleLocationSelect_resume (GeocodeData None) exampleComplete
     = (exampleComplete\<lparr>address := ''Address not found''\<rparr>, [])"
    using geocode_failure_address [of "GeocodeData None" exampleComplete] by simp
  moreover have e: "fst (handleLocationSelect_resume (GeocodeThrew ''offline'') exampleComplete)
     = exampleComplete\<lparr>address := []\<rparr>"
    using geocode_failure_address [of "GeocodeThrew ''offline''" exampleComplete "''offline''"]
    by simp
  moreover have "requests (snd (handleSubmit (fst (handleLocationSelect_resume (GeocodeThrew ''offline'') exampleComplete))))
     = [PostReports (submitFormData (File ''bits'' ''road.jpg'' ''image/jpeg'') garbage_waste
          exampleCoords [] [] exampleVerdict)]"
    using geocode_failure_address [of "GeocodeThrew ''offline''" exampleComplete "''offline''"
        "File ''bits'' ''road.jpg'' ''image/jpeg''" exampleCoords exampleVerdict] c
    by (simp add: d e)
  ultimately show ?thesis by simp
qed

section \<open>C9: the category never blocks a scan\<close>

text \<open>
  Claim C9: the category starts as \<open>drainage\<close>, only the category select changes it, to
  the value selected, and it is always one of the three members of the union; each of
  them is a truthy string, so \<open>handleScan\<close> refuses exactly when the image is absent, and
  with an image it is \<open>analyzeImage\<close> on the image and the category.
\<close>

theorem category_never_blocks_scan:
  "issueType initialState = drainage \<and>
   issueType (ui (fst (step e sys))) =
     (case e of SelectIssueType v \<Rightarrow> v | _ \<Rightarrow> issueType (ui sys)) \<and>
   issueType (ui (run es initialSystem)) \<in> {drainage, garbage_waste, pothole} \<and>
   truthy (issueTypeValue (issueType s)) \<and>
   (requests (snd (handleScan s)) = [] \<longleftrightarrow> image_file s = None) \<and>
   (image_file s = Some img \<longrightarrow> handleScan s = analyzeImage img (issueType s) s)"
proof -
  have t: "truthy (issueTypeValue ty)" for ty
    by (cases ty) (simp_all add: truthy_def)
  have enum: "ty \<in> {drainage, garbage_waste, pothole}" for ty
    by (cases ty) simp_all
  have scan: "handleScan s = analyzeImage img (issueType s) s" if "image_file s = Some img" for img
    using that by (simp add: handleScan_def t)
  have iff: "requests (snd (handleScan s)) = [] \<longleftrightarrow> image_file s = None"
  proof (cases "image_file s")
    case None
    then show ?thesis by (simp add: handleScan_def)
  next
    case (Some f)
    then show ?thesis by (simp add: scan analyzeImage_def)
  qed
  show ?thesis
    using t enum scan iff step_issueType [of e sys]
    by (simp add: initialState_def)
qed

text \<open>
  With the sample image the scan is issued; in the initial state, without image, it is not.
\<close>

theorem category_never_blocks_scan_witness:
  "handleScan exampleClassified =
     analyzeImage (File ''bits'' ''road.jpg'' ''image/jpeg'') garbage_waste exampleClassified \<and>
   requests (snd (handleScan exampleClassified)) \<noteq> [] \<and>
   requests (snd (handleScan initialState)) = []"
proof -
  let ?img = "File ''bits'' ''road.jpg'' ''image/jpeg''"
  have c: "image_file exampleClassified = Some ?img" "image_file initialState = None"
    by (simp_all add: exampleClassified_def initialState_def)
  have ty: "issueType exampleClassified = garbage_waste"
    by (simp add: exampleClassified_def)
  note t1 = category_never_blocks_scan [of "SelectIssueType pothole" initialSystem "[]"
        exampleClassified ?img]
  note t2 = category_never_blocks_scan [of "SelectIssueType pothole" initialSystem "[]"
        initialState ?img]
  from t1 c(1) have "handleScan exampleClassified =
      analyzeImage ?img (issueType exampleClassified) exampleClassified"
    by blast
  then have a: "handleScan exampleClassified = analyzeImage ?img garbage_waste exampleClassified"
    by (simp only: ty)
  from t1 have "(requests (snd (handleScan exampleClassified)) = []) =
      (image_file exampleClassified = None)"
    by blast
  then have b: "requests (snd (handleScan exampleClassified)) \<noteq> []"
    by (simp only: c(1) option.distinct simp_thms)
  from t2 have "(requests (snd (handleScan initialState)) = []) = (image_file initialState = None)"
    by blast
  then have d: "requests (snd (handleScan initialState)) = []"
    by (simp only: c(2) simp_thms)
  from a b d show ?thesis by (intro conjI)
qed

section \<open>C10: the ai_severity field\<close>

text \<open>
  Claim C10: for a matching verdict without severity the record has one \<open>ai_severity\<close>
  entry, the empty string; for a verdict that is no match the record has no
  \<open>ai_severity\<close> entry.
\<close>

theorem ai_severity_entry:
  assumes "image_file s = Some img" "location s = Some loc" "aiAnalysis s = Some a"
  shows "\<exists>fd. requests (snd (handleSubmit s)) = [PostReports fd] \<and>
           (is_match a \<and> severity a = None \<longrightarrow>
              [v. (k, v) \<leftarrow> fd, k = ''ai_severity''] = [StringEntry []]) \<and>
           (\<not> is_match a \<longrightarrow> ''ai_severity'' \<notin> set (map fst fd))"
proof (cases "is_match a")
  case True
  show ?thesis
    using handleSubmit_complete [OF assms] True
    by (simp add: submitFormData_match)
next
  case False
  show ?thesis
    using handleSubmit_complete [OF assms] False
    by (simp add: submitFormData_no_match)
qed

text \<open>
  The sample draft with a matching verdict without severity, and with a no-match verdict.
\<close>

theorem ai_severity_entry_witness:
  "(\<exists>fd. requests (snd (handleSubmit (exampleComplete\<lparr>aiAnalysis :=
             Some \<lparr>is_match = True, probability = 9 / 10, severity = None\<rparr>\<rparr>))) = [PostReports fd] \<and>
          [v. (k, v) \<leftarrow> fd, k = ''ai_severity''] = [StringEntry []]) \<and>
   (\<exists>fd. requests (snd (handleSubmit (exampleComplete\<lparr>aiAnalysis :=
             Some \<lparr>is_match = False, probability = 2 / 10, severity = None\<rparr>\<rparr>))) = [PostReports fd] \<and>
          ''ai_severity'' \<notin> set (map fst fd))"
proof -
  let ?img = "File ''bits'' ''road.jpg'' ''image/jpeg''"
  let ?a = "\<lparr>is_match = True, probability = 9 / 10, severity = None\<rparr>"
  let ?b = "\<lparr>is_match = False, probability = 2 / 10, severity = None\<rparr>"
  have a: "image_file (exampleComplete\<lparr>aiAnalysis := Some ?a\<rparr>) = Some ?img"
      "location (exampleComplete\<lparr>aiAnalysis := Some ?a\<rparr>) = Some exampleCoords"
      "aiAnalysis (exampleComplete\<lparr>aiAnalysis := Some ?a\<rparr>) = Some ?a"
    by (simp_all add: exampleComplete_def exampleClassified_def)
  have b: "image_file (exampleComplete\<lparr>aiAnalysis := Some ?b\<rparr>) = Some ?img"
      "location (exampleComplete\<lparr>aiAnalysis := Some ?b\<rparr>) = Some exampleCoords"
      "aiAnalysis (exampleComplete\<lparr>aiAnalysis := Some ?b\<rparr>) = Some ?b"
    by (simp_all add: exampleComplete_def exampleClassified_def)
  show ?thesis
    using ai_severity_entry [OF a] ai_severity_entry [OF b] by simp
qed

end
